theory Spec2Isabelle
  imports Main "HOL-Library.Word"
begin

unbundle bit_operations_syntax

section \<open>Data model\<close>

text \<open>
  The probes of \<^verbatim>\<open>chmod.h\<close> and \<^verbatim>\<open>mount.h\<close> run once per kernel event, on behalf of the
  current thread. Each handler is a function from the state of the eBPF maps to the new
  state; the current thread, the read-only collaborators (policy, identity caches) and the
  kernel memory the probes read are explicit arguments. Every handler of the two files
  returns 0 on every path, so the model keeps only the state.
\<close>

type_synonym u8 = "8 word"
type_synonym u16 = "16 word"
type_synonym u32 = "32 word"
type_synonym u64 = "64 word"

text \<open>A kernel pointer; \<open>0\<close> is \<^verbatim>\<open>NULL\<close>.\<close>
type_synonym ptr = "64 word"

text \<open>The two event types the files name.\<close>
datatype event_type = EVENT_CHMOD | EVENT_MOUNT

text \<open>
  Modelled from the spec: \<^verbatim>\<open>struct policy_t\<close> is declared outside the two files; the spec
  gives a policy a mode (and approver predicates, which the handlers here never read).
\<close>
record policy_t =
  pol_mode :: u8
  pol_flags :: u8

text \<open>
  Modelled from the spec: \<^verbatim>\<open>struct path_key_t\<close>, the (mount identifier, inode number) pair.
\<close>
record path_key_t =
  ino :: u64
  mount_id :: u32

text \<open>
  Modelled from the spec: \<^verbatim>\<open>struct file_t\<close>, the target file identity of an event; its
  declaration is outside the two files, the path key is the part the spec names.
\<close>
record file_t =
  path_key :: path_key_t

text \<open>
  \<^verbatim>\<open>struct syscall_cache_t\<close>: the type tag, the policy snapshot and one payload per family.
  Its declaration is in \<^verbatim>\<open>syscalls.h\<close>; the fields are the ones the two files access. The
  payloads of the C union are separate fields here: a handler reads only the payload of
  its own family, so the overlap of the union is never observed.
\<close>
record setattr_t =
  sa_mode :: u32
  sa_file :: file_t
  sa_dentry :: ptr

record mount_t =
  src_mnt :: ptr
  dest_mnt :: ptr
  dest_mountpoint :: ptr
  root_key :: path_key_t
  fstype :: ptr

record syscall_cache_t =
  sc_type :: event_type
  sc_policy :: policy_t
  setattr :: setattr_t
  mount :: mount_t

text \<open>
  Modelled from the spec: the process and container snapshots (\<^verbatim>\<open>process_context_t\<close>,
  \<^verbatim>\<open>container_context_t\<close>, \<^verbatim>\<open>proc_cache_t\<close>) are declared outside the two files; they are
  looked up by the acting thread and are absent (zero) when the cache has no entry.
\<close>
record process_context_t =
  pid :: u32
  tid :: u32

record proc_cache_t =
  pc_container_id :: string

record container_context_t =
  container_id :: string

text \<open>
  \<^verbatim>\<open>struct chmod_event_t\<close> and \<^verbatim>\<open>struct mount_event_t\<close>. The header \<^verbatim>\<open>kevent_t\<close> is filled
  by \<^verbatim>\<open>send_event\<close>; its type tag is the first component of a published record below.
  \<^verbatim>\<open>syscall.retval\<close> is kept as the signed value of the C \<^verbatim>\<open>int\<close>.
\<close>
record chmod_event_t =
  ce_process :: process_context_t
  ce_container :: container_context_t
  ce_retval :: int
  ce_file :: file_t
  ce_mode :: u32
  ce_padding :: u32

definition FSTYPE_LEN :: nat where
  "FSTYPE_LEN = 16"

record mount_event_t =
  me_process :: process_context_t
  me_container :: container_context_t
  me_retval :: int
  me_mount_id :: u32
  me_group_id :: u32
  me_device :: u32
  me_parent_mount_id :: u32
  me_parent_ino :: u64
  me_root_ino :: u64
  me_root_mount_id :: u32
  me_padding :: u32
  me_fstype :: string

datatype event_body = Chmod_event chmod_event_t | Mount_event mount_event_t

text \<open>One step of a path walk: the path key of the step and its name fragment.\<close>
type_synonym fragment = "path_key_t \<times> string"

text \<open>
  The state of the eBPF maps: the Pending-Syscall Cache, keyed by (thread, syscall type)
  as the spec has it; the path fragments written by the path resolver; and the records
  handed to \<^verbatim>\<open>send_event\<close>, oldest first (the publish attempts: what the bounded channel
  then does with a record is the emitter's business, outside these files).
\<close>
record state =
  syscalls :: "(u64 \<times> event_type) \<rightharpoonup> syscall_cache_t"
  pathnames :: "fragment list"
  events :: "(event_type \<times> event_body) list"

text \<open>
  The read-only collaborators, taken as parameters: the policy table
  (\<^verbatim>\<open>fetch_policy\<close>), the per-process discarder lookup (\<^verbatim>\<open>is_discarded_by_process\<close>, which
  reads the current process, here the third argument), the macro \<^verbatim>\<open>IS_UNHANDLED_ERROR\<close>
  on the C \<^verbatim>\<open>int\<close> return value, the process cache, and the configured maximum depth of
  a path walk. None of them is defined in the two files.
\<close>
record env =
  fetch_policy :: "event_type \<Rightarrow> policy_t"
  is_discarded_by_process :: "u8 \<Rightarrow> event_type \<Rightarrow> u64 \<Rightarrow> bool"
  IS_UNHANDLED_ERROR :: "32 word \<Rightarrow> bool"
  proc_cache :: "u64 \<rightharpoonup> proc_cache_t"
  max_depth :: nat

text \<open>
  The kernel objects the probes read, by address. The accessors below
  (\<^verbatim>\<open>get_mount_mount_id\<close> and the others) are defined outside the two files.
\<close>
record mount_obj =
  mnt_id :: u32
  mnt_group_id :: u32
  mnt_dev :: u32
  mnt_root :: ptr

record dentry_obj =
  d_ino :: u64
  d_parent :: ptr
  d_name :: string
  d_sb :: ptr

record kernel =
  k_mount :: "ptr \<rightharpoonup> mount_obj"
  k_mountpoint :: "ptr \<rightharpoonup> ptr"
  k_dentry :: "ptr \<rightharpoonup> dentry_obj"
  k_super_block :: "ptr \<rightharpoonup> ptr"
  k_fs_type :: "ptr \<rightharpoonup> ptr"
  k_string :: "ptr \<rightharpoonup> string"

section \<open>Helpers defined outside the two files\<close>

text \<open>
  Modelled from the spec: a probe read of kernel memory. The accessors read through
  \<^verbatim>\<open>bpf_probe_read\<close>, which leaves zero in the destination when the address cannot be
  read; \<^verbatim>\<open>NULL\<close> can never be read. This is the "zero/absent default" of the spec.
\<close>
definition probe_read :: "(ptr \<rightharpoonup> 'a) \<Rightarrow> ptr \<Rightarrow> 'a option" where
  "probe_read m p = (if p = 0 then None else m p)"

definition get_mount_mount_id :: "kernel \<Rightarrow> ptr \<Rightarrow> u32" where
  "get_mount_mount_id k mnt = (case probe_read (k_mount k) mnt of None \<Rightarrow> 0 | Some m \<Rightarrow> mnt_id m)"

definition get_mount_peer_group_id :: "kernel \<Rightarrow> ptr \<Rightarrow> u32" where
  "get_mount_peer_group_id k mnt =
     (case probe_read (k_mount k) mnt of None \<Rightarrow> 0 | Some m \<Rightarrow> mnt_group_id m)"

definition get_mount_dev :: "kernel \<Rightarrow> ptr \<Rightarrow> u32" where
  "get_mount_dev k mnt = (case probe_read (k_mount k) mnt of None \<Rightarrow> 0 | Some m \<Rightarrow> mnt_dev m)"

text \<open>The \<^verbatim>\<open>vfsmount\<close> is embedded in the mount: its handle stands for the same object.\<close>
definition get_mount_vfsmount :: "ptr \<Rightarrow> ptr" where
  "get_mount_vfsmount mnt = mnt"

definition get_vfsmount_dentry :: "kernel \<Rightarrow> ptr \<Rightarrow> ptr" where
  "get_vfsmount_dentry k vfsmnt =
     (case probe_read (k_mount k) vfsmnt of None \<Rightarrow> 0 | Some m \<Rightarrow> mnt_root m)"

definition get_mountpoint_dentry :: "kernel \<Rightarrow> ptr \<Rightarrow> ptr" where
  "get_mountpoint_dentry k mp = (case probe_read (k_mountpoint k) mp of None \<Rightarrow> 0 | Some d \<Rightarrow> d)"

definition get_dentry_ino :: "kernel \<Rightarrow> ptr \<Rightarrow> u64" where
  "get_dentry_ino k d = (case probe_read (k_dentry k) d of None \<Rightarrow> 0 | Some x \<Rightarrow> d_ino x)"

definition get_dentry_parent :: "kernel \<Rightarrow> ptr \<Rightarrow> ptr" where
  "get_dentry_parent k d = (case probe_read (k_dentry k) d of None \<Rightarrow> 0 | Some x \<Rightarrow> d_parent x)"

definition get_dentry_name :: "kernel \<Rightarrow> ptr \<Rightarrow> string" where
  "get_dentry_name k d = (case probe_read (k_dentry k) d of None \<Rightarrow> [] | Some x \<Rightarrow> d_name x)"

definition get_dentry_sb :: "kernel \<Rightarrow> ptr \<Rightarrow> ptr" where
  "get_dentry_sb k d = (case probe_read (k_dentry k) d of None \<Rightarrow> 0 | Some x \<Rightarrow> d_sb x)"

definition get_super_block_fs :: "kernel \<Rightarrow> ptr \<Rightarrow> ptr" where
  "get_super_block_fs k sb = (case probe_read (k_super_block k) sb of None \<Rightarrow> 0 | Some t \<Rightarrow> t)"

text \<open>
  \<^verbatim>\<open>bpf_probe_read(&syscall->mount.fstype, sizeof(...), &s_type->name)\<close>: the name pointer of
  the filesystem type.
\<close>
definition read_fs_name :: "kernel \<Rightarrow> ptr \<Rightarrow> ptr" where
  "read_fs_name k s_type = (case probe_read (k_fs_type k) s_type of None \<Rightarrow> 0 | Some n \<Rightarrow> n)"

text \<open>
  \<^verbatim>\<open>bpf_probe_read_str(dst, n, src)\<close>: at most \<open>n - 1\<close> characters of the string at \<open>src\<close>,
  and the terminator; nothing when \<open>src\<close> cannot be read.
\<close>
definition bpf_probe_read_str :: "kernel \<Rightarrow> nat \<Rightarrow> ptr \<Rightarrow> string" where
  "bpf_probe_read_str k n src =
     (case probe_read (k_string k) src of None \<Rightarrow> [] | Some str \<Rightarrow> take (n - 1) str)"

text \<open>The mask of the permission, set-id and sticky bits of \<^verbatim>\<open>linux/stat.h\<close>: octal 07777.\<close>
definition S_IALLUGO :: u32 where
  "S_IALLUGO = 4095"

text \<open>
  Modelled from the spec: the Pending-Syscall Cache of \<^verbatim>\<open>syscalls.h\<close>
  (\<^verbatim>\<open>cache_syscall\<close>, \<^verbatim>\<open>peek_syscall\<close>, \<^verbatim>\<open>pop_syscall\<close>). Insert stores or overwrites the single
  slot of the key (current thread, type of the entry); peek is a lookup of the current
  thread's slot for a type; pop removes and returns the entry of that slot, and is absent
  when the slot is empty.
\<close>
definition cache_syscall :: "u64 \<Rightarrow> syscall_cache_t \<Rightarrow> state \<Rightarrow> state" where
  "cache_syscall t c s = s\<lparr>syscalls := (syscalls s)((t, sc_type c) \<mapsto> c)\<rparr>"

definition peek_syscall :: "u64 \<Rightarrow> event_type \<Rightarrow> state \<Rightarrow> syscall_cache_t option" where
  "peek_syscall t ty s = syscalls s (t, ty)"

definition pop_syscall :: "u64 \<Rightarrow> event_type \<Rightarrow> state \<Rightarrow> syscall_cache_t option \<times> state" where
  "pop_syscall t ty s =
     (case syscalls s (t, ty) of
        None \<Rightarrow> (None, s)
      | Some c \<Rightarrow> (Some c, s\<lparr>syscalls := (syscalls s)((t, ty) := None)\<rparr>))"

text \<open>
  Modelled from the spec: the Path Resolver \<^verbatim>\<open>resolve_dentry\<close> of the dentry resolver,
  which is outside the two files. From a directory-entry handle it walks toward the
  filesystem root and yields, for each step, the path key and the name fragment; it stops
  at a root entry (an entry that is its own parent) or after the configured maximum number
  of steps. The third argument of the C call (always 0 in the two files) selects no
  behaviour the spec describes.
\<close>
definition is_root_dentry :: "kernel \<Rightarrow> ptr \<Rightarrow> bool" where
  "is_root_dentry k d = (get_dentry_parent k d = d)"

fun dentry_walk :: "kernel \<Rightarrow> nat \<Rightarrow> ptr \<Rightarrow> path_key_t \<Rightarrow> fragment list" where
  "dentry_walk k 0 d key = []"
| "dentry_walk k (Suc n) d key =
     (if is_root_dentry k d then []
      else (key, get_dentry_name k d) #
           dentry_walk k n (get_dentry_parent k d)
             (key\<lparr>ino := get_dentry_ino k (get_dentry_parent k d)\<rparr>))"

definition resolve_dentry :: "env \<Rightarrow> kernel \<Rightarrow> ptr \<Rightarrow> path_key_t \<Rightarrow> int \<Rightarrow> fragment list" where
  "resolve_dentry e k dentry key discarder_type = dentry_walk k (max_depth e) dentry key"

text \<open>The effect of a call of \<^verbatim>\<open>resolve_dentry\<close> on the maps: the fragments of the walk.\<close>
definition resolve_dentry_st :: "env \<Rightarrow> kernel \<Rightarrow> ptr \<Rightarrow> path_key_t \<Rightarrow> int \<Rightarrow> state \<Rightarrow> state" where
  "resolve_dentry_st e k dentry key discarder_type s =
     s\<lparr>pathnames := pathnames s @ resolve_dentry e k dentry key discarder_type\<rparr>"

text \<open>
  Modelled from the spec: the Identity Context Resolver (\<^verbatim>\<open>fill_process_context\<close>,
  \<^verbatim>\<open>fill_container_context\<close>). The process context is the identity of the acting thread
  (the two halves of its 64-bit id); the container context comes from the process cache
  and is absent when the cache has no entry.
\<close>
definition fill_process_context :: "env \<Rightarrow> u64 \<Rightarrow> process_context_t \<times> proc_cache_t option" where
  "fill_process_context e t =
     (\<lparr>pid = ucast (drop_bit 32 t), tid = ucast t\<rparr>, proc_cache e (drop_bit 32 t))"

definition fill_container_context :: "proc_cache_t option \<Rightarrow> container_context_t" where
  "fill_container_context entry =
     (case entry of
        None \<Rightarrow> \<lparr>container_id = []\<rparr>
      | Some p \<Rightarrow> \<lparr>container_id = pc_container_id p\<rparr>)"

text \<open>
  Modelled from the spec: the Event Emitter \<^verbatim>\<open>send_event\<close>. It tags the record with its
  event type and hands it to the outbound channel.
\<close>
definition send_event :: "event_type \<Rightarrow> event_body \<Rightarrow> state \<Rightarrow> state" where
  "send_event ty ev s = s\<lparr>events := events s @ [(ty, ev)]\<rparr>"

section \<open>chmod.h\<close>

definition zero_path_key :: path_key_t where
  "zero_path_key = \<lparr>ino = 0, mount_id = 0\<rparr>"

definition zero_policy :: policy_t where
  "zero_policy = \<lparr>pol_mode = 0, pol_flags = 0\<rparr>"

definition zero_setattr :: setattr_t where
  "zero_setattr = \<lparr>sa_mode = 0, sa_file = \<lparr>path_key = zero_path_key\<rparr>, sa_dentry = 0\<rparr>"

definition zero_mount :: mount_t where
  "zero_mount =
     \<lparr>src_mnt = 0, dest_mnt = 0, dest_mountpoint = 0, root_key = zero_path_key, fstype = 0\<rparr>"

text \<open>
  \<^verbatim>\<open>trace__sys_chmod\<close>: the policy is fetched and the process discarder asked first; an
  admitted call caches an entry of type \<^verbatim>\<open>EVENT_CHMOD\<close> with the masked mode, every other
  field zero. \<^verbatim>\<open>umode_t\<close> is an unsigned short, promoted before the mask is applied.
\<close>
definition trace__sys_chmod :: "env \<Rightarrow> u64 \<Rightarrow> u16 \<Rightarrow> state \<Rightarrow> state" where
  "trace__sys_chmod e t mode s =
     (let policy = fetch_policy e EVENT_CHMOD in
      if is_discarded_by_process e (pol_mode policy) EVENT_CHMOD t then s
      else cache_syscall t
             \<lparr>sc_type = EVENT_CHMOD, sc_policy = policy,
              setattr = zero_setattr\<lparr>sa_mode := ucast mode AND S_IALLUGO\<rparr>,
              mount = zero_mount\<rparr> s)"

text \<open>The three entry probes: \<^verbatim>\<open>chmod\<close>, \<^verbatim>\<open>fchmod\<close>, \<^verbatim>\<open>fchmodat\<close>.\<close>
definition sys_chmod :: "env \<Rightarrow> u64 \<Rightarrow> ptr \<Rightarrow> u16 \<Rightarrow> state \<Rightarrow> state" where
  "sys_chmod e t filename mode s = trace__sys_chmod e t mode s"

definition sys_fchmod :: "env \<Rightarrow> u64 \<Rightarrow> 32 word \<Rightarrow> u16 \<Rightarrow> state \<Rightarrow> state" where
  "sys_fchmod e t fd mode s = trace__sys_chmod e t mode s"

definition sys_fchmodat :: "env \<Rightarrow> u64 \<Rightarrow> 32 word \<Rightarrow> ptr \<Rightarrow> u16 \<Rightarrow> state \<Rightarrow> state" where
  "sys_fchmodat e t dirfd filename mode s = trace__sys_chmod e t mode s"

text \<open>The record \<^verbatim>\<open>do_sys_chmod_ret\<close> builds, with both contexts filled.\<close>
definition chmod_event :: "env \<Rightarrow> u64 \<Rightarrow> syscall_cache_t \<Rightarrow> 32 word \<Rightarrow> chmod_event_t" where
  "chmod_event e t syscall retval =
     (let (process, entry) = fill_process_context e t in
      \<lparr>ce_process = process,
       ce_container = fill_container_context entry,
       ce_retval = sint retval,
       ce_file = sa_file (setattr syscall),
       ce_mode = sa_mode (setattr syscall),
       ce_padding = 0\<rparr>)"

definition do_sys_chmod_ret :: "env \<Rightarrow> u64 \<Rightarrow> syscall_cache_t \<Rightarrow> 32 word \<Rightarrow> state \<Rightarrow> state" where
  "do_sys_chmod_ret e t syscall retval s =
     (if IS_UNHANDLED_ERROR e retval then s
      else send_event EVENT_CHMOD (Chmod_event (chmod_event e t syscall retval)) s)"

text \<open>
  The two exit paths. Both pop the entry of the current thread and return at once when
  there is none; the return value (\<^verbatim>\<open>args->ret\<close>, \<^verbatim>\<open>PT_REGS_RC(ctx)\<close>) is a 64-bit register
  narrowed to the C \<^verbatim>\<open>int\<close>.
\<close>
definition handle_sys_chmod_exit :: "env \<Rightarrow> u64 \<Rightarrow> u64 \<Rightarrow> state \<Rightarrow> state" where
  "handle_sys_chmod_exit e t ret s =
     (case pop_syscall t EVENT_CHMOD s of
        (None, s') \<Rightarrow> s'
      | (Some syscall, s') \<Rightarrow> do_sys_chmod_ret e t syscall (ucast ret) s')"

definition trace__sys_chmod_ret :: "env \<Rightarrow> u64 \<Rightarrow> u64 \<Rightarrow> state \<Rightarrow> state" where
  "trace__sys_chmod_ret e t rc s =
     (case pop_syscall t EVENT_CHMOD s of
        (None, s') \<Rightarrow> s'
      | (Some syscall, s') \<Rightarrow> do_sys_chmod_ret e t syscall (ucast rc) s')"

section \<open>mount.h\<close>

text \<open>The entry probe of \<^verbatim>\<open>mount\<close>: an entry with the type tag only, cached unconditionally.\<close>
definition sys_mount :: "u64 \<Rightarrow> ptr \<Rightarrow> ptr \<Rightarrow> ptr \<Rightarrow> state \<Rightarrow> state" where
  "sys_mount t source target fstype_arg s =
     cache_syscall t
       \<lparr>sc_type = EVENT_MOUNT, sc_policy = zero_policy,
        setattr = zero_setattr, mount = zero_mount\<rparr> s"

text \<open>
  What both intermediate hooks do once the three handles are stored: resolve the root
  dentry of the source mount, store the root key, walk the root dentry, and store the
  name pointer of the filesystem type. The entry is changed in place in the cache.
\<close>
definition mount_hook_body ::
    "env \<Rightarrow> kernel \<Rightarrow> u64 \<Rightarrow> syscall_cache_t \<Rightarrow> mount_t \<Rightarrow> state \<Rightarrow> state" where
  "mount_hook_body e k t syscall m s =
     (let dentry = get_vfsmount_dentry k (get_mount_vfsmount (src_mnt m));
          rk = \<lparr>ino = get_dentry_ino k dentry, mount_id = get_mount_mount_id k (src_mnt m)\<rparr>;
          sb = get_dentry_sb k dentry;
          s_type = get_super_block_fs k sb;
          m' = m\<lparr>root_key := rk, fstype := read_fs_name k s_type\<rparr>
      in (resolve_dentry_st e k dentry rk 0 s)
           \<lparr>syscalls := (syscalls s)((t, EVENT_MOUNT) \<mapsto> syscall\<lparr>mount := m'\<rparr>)\<rparr>)"

definition kprobe__attach_recursive_mnt ::
    "env \<Rightarrow> kernel \<Rightarrow> u64 \<Rightarrow> ptr \<Rightarrow> ptr \<Rightarrow> ptr \<Rightarrow> state \<Rightarrow> state" where
  "kprobe__attach_recursive_mnt e k t parm1 parm2 parm3 s =
     (case peek_syscall t EVENT_MOUNT s of
        None \<Rightarrow> s
      | Some syscall \<Rightarrow>
          mount_hook_body e k t syscall
            ((mount syscall)\<lparr>src_mnt := parm1, dest_mnt := parm2, dest_mountpoint := parm3\<rparr>) s)"

definition kprobe__propagate_mnt ::
    "env \<Rightarrow> kernel \<Rightarrow> u64 \<Rightarrow> ptr \<Rightarrow> ptr \<Rightarrow> ptr \<Rightarrow> state \<Rightarrow> state" where
  "kprobe__propagate_mnt e k t parm1 parm2 parm3 s =
     (case peek_syscall t EVENT_MOUNT s of
        None \<Rightarrow> s
      | Some syscall \<Rightarrow>
          mount_hook_body e k t syscall
            ((mount syscall)\<lparr>dest_mnt := parm1, dest_mountpoint := parm2, src_mnt := parm3\<rparr>) s)"

text \<open>The record \<^verbatim>\<open>do_sys_mount_ret\<close> builds, with both contexts filled.\<close>
definition mount_event :: "env \<Rightarrow> kernel \<Rightarrow> u64 \<Rightarrow> syscall_cache_t \<Rightarrow> 32 word \<Rightarrow> mount_event_t" where
  "mount_event e k t syscall retval =
     (let dentry = get_mountpoint_dentry k (dest_mountpoint (mount syscall));
          pk = \<lparr>ino = get_dentry_ino k dentry,
                mount_id = get_mount_mount_id k (dest_mnt (mount syscall))\<rparr>;
          (process, entry) = fill_process_context e t
      in \<lparr>me_process = process,
          me_container = fill_container_context entry,
          me_retval = sint retval,
          me_mount_id = get_mount_mount_id k (src_mnt (mount syscall)),
          me_group_id = get_mount_peer_group_id k (src_mnt (mount syscall)),
          me_device = get_mount_dev k (src_mnt (mount syscall)),
          me_parent_mount_id = mount_id pk,
          me_parent_ino = ino pk,
          me_root_ino = ino (root_key (mount syscall)),
          me_root_mount_id = mount_id (root_key (mount syscall)),
          me_padding = 0,
          me_fstype = bpf_probe_read_str k FSTYPE_LEN (fstype (mount syscall))\<rparr>)"

text \<open>
  \<^verbatim>\<open>do_sys_mount_ret\<close>: nothing for a non-zero return value; nothing when the mount id and
  the device of the source mount are both zero; otherwise the mount point is walked and
  the record sent.
\<close>
definition do_sys_mount_ret ::
    "env \<Rightarrow> kernel \<Rightarrow> u64 \<Rightarrow> syscall_cache_t \<Rightarrow> 32 word \<Rightarrow> state \<Rightarrow> state" where
  "do_sys_mount_ret e k t syscall retval s =
     (if retval \<noteq> 0 then s
      else
        let dentry = get_mountpoint_dentry k (dest_mountpoint (mount syscall));
            pk = \<lparr>ino = get_dentry_ino k dentry,
                  mount_id = get_mount_mount_id k (dest_mnt (mount syscall))\<rparr>;
            event = mount_event e k t syscall retval
        in if me_mount_id event = 0 \<and> me_device event = 0 then s
           else send_event EVENT_MOUNT (Mount_event event) (resolve_dentry_st e k dentry pk 0 s))"

definition handle_sys_mount_exit :: "env \<Rightarrow> kernel \<Rightarrow> u64 \<Rightarrow> u64 \<Rightarrow> state \<Rightarrow> state" where
  "handle_sys_mount_exit e k t ret s =
     (case pop_syscall t EVENT_MOUNT s of
        (None, s') \<Rightarrow> s'
      | (Some syscall, s') \<Rightarrow> do_sys_mount_ret e k t syscall (ucast ret) s')"

definition sys_mount_ret :: "env \<Rightarrow> kernel \<Rightarrow> u64 \<Rightarrow> u64 \<Rightarrow> state \<Rightarrow> state" where
  "sys_mount_ret e k t rc s =
     (case pop_syscall t EVENT_MOUNT s of
        (None, s') \<Rightarrow> s'
      | (Some syscall, s') \<Rightarrow> do_sys_mount_ret e k t syscall (ucast rc) s')"

section \<open>Occurrences\<close>

text \<open>
  Between the entry and the exit of a mount, the kernel may reach either intermediate
  hook any number of times, on the same thread. A list of hook invocations stands for the
  "zero or more" of the control flow.
\<close>
datatype mount_hook = Attach_recursive_mnt ptr ptr ptr | Propagate_mnt ptr ptr ptr

fun run_mount_hook :: "env \<Rightarrow> kernel \<Rightarrow> u64 \<Rightarrow> mount_hook \<Rightarrow> state \<Rightarrow> state" where
  "run_mount_hook e k t (Attach_recursive_mnt p1 p2 p3) s =
     kprobe__attach_recursive_mnt e k t p1 p2 p3 s"
| "run_mount_hook e k t (Propagate_mnt p1 p2 p3) s = kprobe__propagate_mnt e k t p1 p2 p3 s"

fun run_mount_hooks :: "env \<Rightarrow> kernel \<Rightarrow> u64 \<Rightarrow> mount_hook list \<Rightarrow> state \<Rightarrow> state" where
  "run_mount_hooks e k t [] s = s"
| "run_mount_hooks e k t (h # hs) s = run_mount_hooks e k t hs (run_mount_hook e k t h s)"

text \<open>
  Modelled from the spec: the intermediate hook of the mode-change family. It lives in
  \<^verbatim>\<open>setattr.h\<close> (the comment "dentry resolution in setattr.h" of \<^verbatim>\<open>do_sys_chmod_ret\<close> points
  to it), outside the two files. As the spec has intermediate hooks, it looks up the
  pending mode-change entry of the current thread, does nothing when there is none, and
  otherwise stores the target in the entry: its dentry and its file identity, the
  (mount id, inode) path key.
\<close>
definition setattr_hook :: "u64 \<Rightarrow> ptr \<Rightarrow> path_key_t \<Rightarrow> state \<Rightarrow> state" where
  "setattr_hook t dentry key s =
     (case peek_syscall t EVENT_CHMOD s of
        None \<Rightarrow> s
      | Some syscall \<Rightarrow>
          s\<lparr>syscalls := (syscalls s)((t, EVENT_CHMOD) \<mapsto>
               syscall\<lparr>setattr :=
                 (setattr syscall)\<lparr>sa_dentry := dentry, sa_file := \<lparr>path_key = key\<rparr>\<rparr>\<rparr>)\<rparr>)"

section \<open>Concrete inputs\<close>

text \<open>
  A policy that admits every call, with the classification of return values that treats
  every negative value but \<open>-EACCES\<close> (\<open>-13\<close>) and \<open>-EPERM\<close> (\<open>-1\<close>) as unhandled; no
  process is known to the identity cache; a path walk takes at most three steps.
\<close>
definition sample_env :: env where
  "sample_env =
     \<lparr>fetch_policy = (\<lambda>ty. zero_policy),
      is_discarded_by_process = (\<lambda>m ty t. False),
      IS_UNHANDLED_ERROR = (\<lambda>r. r <s 0 \<and> r \<noteq> - 13 \<and> r \<noteq> - 1),
      proc_cache = Map.empty,
      max_depth = 3\<rparr>"

text \<open>The same, with a discarder that discards every call of every process.\<close>
definition discard_env :: env where
  "discard_env = sample_env\<lparr>is_discarded_by_process := (\<lambda>m ty t. True)\<rparr>"

definition empty_state :: state where
  "empty_state = \<lparr>syscalls = Map.empty, pathnames = [], events = []\<rparr>"

definition empty_kernel :: kernel where
  "empty_kernel =
     \<lparr>k_mount = Map.empty, k_mountpoint = Map.empty, k_dentry = Map.empty,
      k_super_block = Map.empty, k_fs_type = Map.empty, k_string = Map.empty\<rparr>"

text \<open>
  A kernel with an ext4 filesystem (mount 42 on device 2049, at address 4096) being
  mounted on the directory \<open>mnt\<close> (inode 300) of mount 1.
\<close>
definition sample_kernel :: kernel where
  "sample_kernel =
     \<lparr>k_mount = [4096 \<mapsto> \<lparr>mnt_id = 42, mnt_group_id = 0, mnt_dev = 2049, mnt_root = 8192\<rparr>,
                 4352 \<mapsto> \<lparr>mnt_id = 1, mnt_group_id = 0, mnt_dev = 2048, mnt_root = 8704\<rparr>],
      k_mountpoint = [12288 \<mapsto> 8448],
      k_dentry = [8192 \<mapsto> \<lparr>d_ino = 2, d_parent = 8192, d_name = ''/'', d_sb = 16384\<rparr>,
                  8448 \<mapsto> \<lparr>d_ino = 300, d_parent = 8704, d_name = ''mnt'', d_sb = 16640\<rparr>,
                  8704 \<mapsto> \<lparr>d_ino = 2, d_parent = 8704, d_name = ''/'', d_sb = 16640\<rparr>],
      k_super_block = [16384 \<mapsto> 20480],
      k_fs_type = [20480 \<mapsto> 24576],
      k_string = [24576 \<mapsto> ''ext4'']\<rparr>"

text \<open>A malformed ancestry: two directory entries, each the parent of the other.\<close>
definition cyclic_kernel :: kernel where
  "cyclic_kernel =
     empty_kernel\<lparr>k_dentry :=
       [16 \<mapsto> \<lparr>d_ino = 5, d_parent = 32, d_name = ''a'', d_sb = 0\<rparr>,
        32 \<mapsto> \<lparr>d_ino = 6, d_parent = 16, d_name = ''b'', d_sb = 0\<rparr>]\<rparr>"

text \<open>
  The pending entry of a mount whose hook received a source mount handle (999) that
  cannot be read in the sample kernel.
\<close>
definition unreadable_source_entry :: syscall_cache_t where
  "unreadable_source_entry =
     \<lparr>sc_type = EVENT_MOUNT, sc_policy = zero_policy, setattr = zero_setattr,
      mount = \<lparr>src_mnt = 999, dest_mnt = 4352, dest_mountpoint = 12288,
               root_key = zero_path_key, fstype = 0\<rparr>\<rparr>"

section \<open>Basic facts about the handlers\<close>

lemma events_cache_syscall: "events (cache_syscall t c s) = events s"
  by (simp add: cache_syscall_def)

lemma syscalls_cache_syscall:
  "syscalls (cache_syscall t c s) = (syscalls s)((t, sc_type c) \<mapsto> c)"
  by (simp add: cache_syscall_def)

lemma pop_syscall_None: "syscalls s (t, ty) = None \<Longrightarrow> pop_syscall t ty s = (None, s)"
  by (simp add: pop_syscall_def)

lemma pop_syscall_Some:
  "syscalls s (t, ty) = Some c \<Longrightarrow>
   pop_syscall t ty s = (Some c, s\<lparr>syscalls := (syscalls s)((t, ty) := None)\<rparr>)"
  by (simp add: pop_syscall_def)

lemma fst_pop_syscall: "fst (pop_syscall t ty s) = syscalls s (t, ty)"
  by (simp add: pop_syscall_def split: option.splits)

lemma events_do_sys_chmod_ret:
  "events (do_sys_chmod_ret e t c r s) =
     events s @ (if IS_UNHANDLED_ERROR e r then [] else [(EVENT_CHMOD, Chmod_event (chmod_event e t c r))])"
  by (simp add: do_sys_chmod_ret_def send_event_def)

lemma events_do_sys_mount_ret:
  "events (do_sys_mount_ret e k t c r s) =
     events s @
       (if r \<noteq> 0 \<or> (get_mount_mount_id k (src_mnt (mount c)) = 0 \<and> get_mount_dev k (src_mnt (mount c)) = 0)
        then [] else [(EVENT_MOUNT, Mount_event (mount_event e k t c r))])"
  by (simp add: do_sys_mount_ret_def send_event_def resolve_dentry_st_def mount_event_def Let_def
      split: prod.splits)

lemma events_handle_sys_chmod_exit:
  "events (handle_sys_chmod_exit e t ret s) =
     events s @
       (case syscalls s (t, EVENT_CHMOD) of
          None \<Rightarrow> []
        | Some c \<Rightarrow> if IS_UNHANDLED_ERROR e (ucast ret) then []
                    else [(EVENT_CHMOD, Chmod_event (chmod_event e t c (ucast ret)))])"
  by (simp add: handle_sys_chmod_exit_def pop_syscall_def events_do_sys_chmod_ret split: option.splits)

lemma events_trace__sys_chmod_ret:
  "events (trace__sys_chmod_ret e t ret s) =
     events s @
       (case syscalls s (t, EVENT_CHMOD) of
          None \<Rightarrow> []
        | Some c \<Rightarrow> if IS_UNHANDLED_ERROR e (ucast ret) then []
                    else [(EVENT_CHMOD, Chmod_event (chmod_event e t c (ucast ret)))])"
  by (simp add: trace__sys_chmod_ret_def pop_syscall_def events_do_sys_chmod_ret split: option.splits)

lemma events_handle_sys_mount_exit:
  "events (handle_sys_mount_exit e k t ret s) =
     events s @
       (case syscalls s (t, EVENT_MOUNT) of
          None \<Rightarrow> []
        | Some c \<Rightarrow>
            if ucast ret \<noteq> (0 :: 32 word) \<or>
               (get_mount_mount_id k (src_mnt (mount c)) = 0 \<and> get_mount_dev k (src_mnt (mount c)) = 0)
            then [] else [(EVENT_MOUNT, Mount_event (mount_event e k t c (ucast ret)))])"
  by (simp add: handle_sys_mount_exit_def pop_syscall_def events_do_sys_mount_ret split: option.splits)

lemma events_sys_mount_ret:
  "events (sys_mount_ret e k t ret s) =
     events s @
       (case syscalls s (t, EVENT_MOUNT) of
          None \<Rightarrow> []
        | Some c \<Rightarrow>
            if ucast ret \<noteq> (0 :: 32 word) \<or>
               (get_mount_mount_id k (src_mnt (mount c)) = 0 \<and> get_mount_dev k (src_mnt (mount c)) = 0)
            then [] else [(EVENT_MOUNT, Mount_event (mount_event e k t c (ucast ret)))])"
  by (simp add: sys_mount_ret_def pop_syscall_def events_do_sys_mount_ret split: option.splits)

lemma events_trace__sys_chmod: "events (trace__sys_chmod e t m s) = events s"
  by (simp add: trace__sys_chmod_def cache_syscall_def Let_def)

lemma events_sys_mount: "events (sys_mount t a b c s) = events s"
  by (simp add: sys_mount_def cache_syscall_def)

lemma events_mount_hook_body: "events (mount_hook_body e k t c m s) = events s"
  by (simp add: mount_hook_body_def resolve_dentry_st_def Let_def)

lemma events_run_mount_hook: "events (run_mount_hook e k t h s) = events s"
  by (cases h)
     (simp_all add: kprobe__attach_recursive_mnt_def kprobe__propagate_mnt_def
        events_mount_hook_body split: option.splits)

lemma events_run_mount_hooks: "events (run_mount_hooks e k t hs s) = events s"
  by (induction hs arbitrary: s) (simp_all add: events_run_mount_hook)

lemma pending_mount_hook_body:
  "\<exists>c'. syscalls (mount_hook_body e k t c m s) (t, EVENT_MOUNT) = Some c'"
  by (simp add: mount_hook_body_def resolve_dentry_st_def Let_def)

lemma pending_run_mount_hook:
  "syscalls s (t, EVENT_MOUNT) = Some c \<Longrightarrow>
   \<exists>c'. syscalls (run_mount_hook e k t h s) (t, EVENT_MOUNT) = Some c'"
  by (cases h)
     (simp_all add: kprobe__attach_recursive_mnt_def kprobe__propagate_mnt_def peek_syscall_def
        pending_mount_hook_body)

lemma pending_run_mount_hooks:
  "syscalls s (t, EVENT_MOUNT) = Some c \<Longrightarrow>
   \<exists>c'. syscalls (run_mount_hooks e k t hs s) (t, EVENT_MOUNT) = Some c'"
proof (induction hs arbitrary: s c)
  case Nil
  then show ?case by simp
next
  case (Cons h hs)
  from pending_run_mount_hook [OF Cons.prems]
  obtain c1 where "syscalls (run_mount_hook e k t h s) (t, EVENT_MOUNT) = Some c1" by blast
  from Cons.IH [OF this] show ?case by simp
qed

lemma pending_sys_mount:
  "syscalls (sys_mount t a b c s) (t, EVENT_MOUNT) =
     Some \<lparr>sc_type = EVENT_MOUNT, sc_policy = zero_policy, setattr = zero_setattr, mount = zero_mount\<rparr>"
  by (simp add: sys_mount_def cache_syscall_def)

lemma pending_trace__sys_chmod:
  "\<not> is_discarded_by_process e (pol_mode (fetch_policy e EVENT_CHMOD)) EVENT_CHMOD t \<Longrightarrow>
   syscalls (trace__sys_chmod e t m s) (t, EVENT_CHMOD) =
     Some \<lparr>sc_type = EVENT_CHMOD, sc_policy = fetch_policy e EVENT_CHMOD,
           setattr = zero_setattr\<lparr>sa_mode := ucast m AND S_IALLUGO\<rparr>, mount = zero_mount\<rparr>"
  by (simp add: trace__sys_chmod_def cache_syscall_def Let_def)

lemma discarded_trace__sys_chmod:
  "is_discarded_by_process e (pol_mode (fetch_policy e EVENT_CHMOD)) EVENT_CHMOD t \<Longrightarrow>
   trace__sys_chmod e t m s = s"
  by (simp add: trace__sys_chmod_def Let_def)

lemma null_mount_reads: "get_mount_mount_id k 0 = 0" "get_mount_dev k 0 = 0"
  by (simp_all add: get_mount_mount_id_def get_mount_dev_def probe_read_def)

lemma exit_noop_chmod:
  "syscalls x (t, EVENT_CHMOD) = None \<Longrightarrow>
   handle_sys_chmod_exit e t r x = x \<and> trace__sys_chmod_ret e t r x = x"
  by (simp add: handle_sys_chmod_exit_def trace__sys_chmod_ret_def pop_syscall_None)

lemma exit_noop_mount:
  "syscalls x (t, EVENT_MOUNT) = None \<Longrightarrow>
   handle_sys_mount_exit e k t r x = x \<and> sys_mount_ret e k t r x = x"
  by (simp add: handle_sys_mount_exit_def sys_mount_ret_def pop_syscall_None)

lemma consumed_by_chmod_exit:
  "syscalls (handle_sys_chmod_exit e t ret s) (t, EVENT_CHMOD) = None"
  by (simp add: handle_sys_chmod_exit_def pop_syscall_def do_sys_chmod_ret_def send_event_def
      split: option.splits)

lemma consumed_by_mount_exit:
  "syscalls (handle_sys_mount_exit e k t ret s) (t, EVENT_MOUNT) = None"
  by (simp add: handle_sys_mount_exit_def pop_syscall_def do_sys_mount_ret_def send_event_def
      resolve_dentry_st_def Let_def split: option.splits)

lemma chmod_event_fields:
  "ce_mode (chmod_event e t c r) = sa_mode (setattr c)"
  "ce_file (chmod_event e t c r) = sa_file (setattr c)"
  "ce_retval (chmod_event e t c r) = sint r"
  by (simp_all add: chmod_event_def split: prod.splits)

lemma and_S_IALLUGO_outside: "(x AND S_IALLUGO) AND NOT S_IALLUGO = 0"
  by (simp add: and.assoc)

lemma and_S_IALLUGO_le: "x AND S_IALLUGO \<le> 4095"
  unfolding S_IALLUGO_def by (rule word_and_le1)

lemma length_dentry_walk: "length (dentry_walk k n d key) \<le> n"
  by (induction n arbitrary: d key) simp_all

section \<open>The claims\<close>

text \<open>
  C4. Whenever the pop of an exit handler returns absent, the handler is a silent no-op:
  it returns the state it was given, so no Event is emitted and nothing changes; the
  handlers have no error result. This holds for both exit paths of the mode-change family
  and both of the mount family. Two causes of an absent entry are spelled out: a call
  discarded at entry (on a slot that was empty), whose entry and exit together leave the
  state as it was, and an entry already consumed, where a second exit changes nothing.
\<close>
theorem exit_without_pending_is_noop:
  "(fst (pop_syscall t EVENT_CHMOD s) = None \<longrightarrow>
      handle_sys_chmod_exit e t ret s = s \<and> trace__sys_chmod_ret e t ret s = s) \<and>
   (fst (pop_syscall t EVENT_MOUNT s) = None \<longrightarrow>
      handle_sys_mount_exit e k t ret s = s \<and> sys_mount_ret e k t ret s = s) \<and>
   (is_discarded_by_process e (pol_mode (fetch_policy e EVENT_CHMOD)) EVENT_CHMOD t \<and>
    syscalls s (t, EVENT_CHMOD) = None \<longrightarrow>
      handle_sys_chmod_exit e t ret (trace__sys_chmod e t mode s) = s \<and>
      trace__sys_chmod_ret e t ret (trace__sys_chmod e t mode s) = s) \<and>
   handle_sys_chmod_exit e t ret' (handle_sys_chmod_exit e t ret s) =
     handle_sys_chmod_exit e t ret s \<and>
   handle_sys_mount_exit e k t ret' (handle_sys_mount_exit e k t ret s) =
     handle_sys_mount_exit e k t ret s"
  using exit_noop_chmod [of _ t e] exit_noop_mount [of _ t e k]
    consumed_by_chmod_exit [of e t ret s] consumed_by_mount_exit [of e k t ret s]
  by (simp add: fst_pop_syscall discarded_trace__sys_chmod)

theorem exit_without_pending_is_noop_witness:
  "fst (pop_syscall 7 EVENT_CHMOD empty_state) = None \<and>
   handle_sys_chmod_exit discard_env 7 0 empty_state = empty_state \<and>
   trace__sys_chmod_ret discard_env 7 0 empty_state = empty_state \<and>
   fst (pop_syscall 7 EVENT_MOUNT empty_state) = None \<and>
   handle_sys_mount_exit discard_env empty_kernel 7 0 empty_state = empty_state \<and>
   sys_mount_ret discard_env empty_kernel 7 0 empty_state = empty_state \<and>
   is_discarded_by_process discard_env (pol_mode (fetch_policy discard_env EVENT_CHMOD))
     EVENT_CHMOD 7 \<and>
   handle_sys_chmod_exit discard_env 7 0 (trace__sys_chmod discard_env 7 420 empty_state) =
     empty_state"
proof -
  have h1: "fst (pop_syscall 7 EVENT_CHMOD empty_state) = None"
    and h2: "fst (pop_syscall 7 EVENT_MOUNT empty_state) = None"
    and h3: "syscalls empty_state (7, EVENT_CHMOD) = None"
    by (simp_all add: pop_syscall_def empty_state_def)
  have h4: "is_discarded_by_process discard_env (pol_mode (fetch_policy discard_env EVENT_CHMOD))
     EVENT_CHMOD 7"
    by (simp add: discard_env_def sample_env_def)
  show ?thesis
    using h1 h2 h3 h4
      exit_without_pending_is_noop [of 7 empty_state discard_env 0 empty_kernel 420 0]
    by simp
qed

text \<open>
  C5. An exit whose return value is classified as an unhandled error emits no Event: for
  the mode-change family when \<^verbatim>\<open>IS_UNHANDLED_ERROR\<close> holds of the return value, for the
  mount family when the return value is not zero. In both cases the list of emitted
  records is the same after the exit handler as before it, on either exit path and
  whatever the cache holds, and the inner function returns at once.
\<close>
theorem unhandled_error_emits_nothing:
  "(IS_UNHANDLED_ERROR e (ucast ret) \<longrightarrow>
      events (handle_sys_chmod_exit e t ret s) = events s \<and>
      events (trace__sys_chmod_ret e t ret s) = events s \<and>
      do_sys_chmod_ret e t c (ucast ret) s = s) \<and>
   ((ucast ret :: 32 word) \<noteq> 0 \<longrightarrow>
      events (handle_sys_mount_exit e k t ret s) = events s \<and>
      events (sys_mount_ret e k t ret s) = events s \<and>
      do_sys_mount_ret e k t c (ucast ret) s = s)"
  by (simp add: events_handle_sys_chmod_exit events_trace__sys_chmod_ret
      events_handle_sys_mount_exit events_sys_mount_ret do_sys_chmod_ret_def do_sys_mount_ret_def
      split: option.splits)

theorem unhandled_error_emits_nothing_witness:
  "IS_UNHANDLED_ERROR sample_env (ucast (- 4 :: u64)) \<and>
   syscalls (trace__sys_chmod sample_env 7 420 empty_state) (7, EVENT_CHMOD) \<noteq> None \<and>
   events (handle_sys_chmod_exit sample_env 7 (- 4) (trace__sys_chmod sample_env 7 420 empty_state)) = [] \<and>
   events (trace__sys_chmod_ret sample_env 7 (- 4) (trace__sys_chmod sample_env 7 420 empty_state)) = [] \<and>
   (ucast (- 16 :: u64) :: 32 word) \<noteq> 0 \<and>
   events (handle_sys_mount_exit sample_env sample_kernel 7 (- 16)
     (kprobe__attach_recursive_mnt sample_env sample_kernel 7 4096 4352 12288
        (sys_mount 7 1 2 3 empty_state))) = [] \<and>
   events (sys_mount_ret sample_env sample_kernel 7 (- 16)
     (kprobe__attach_recursive_mnt sample_env sample_kernel 7 4096 4352 12288
        (sys_mount 7 1 2 3 empty_state))) = []"
proof -
  have h1: "IS_UNHANDLED_ERROR sample_env (ucast (- 4 :: u64))"
    by (simp add: sample_env_def word_sless_alt)
  have h2: "(ucast (- 16 :: u64) :: 32 word) \<noteq> 0"
    by simp
  have h3: "syscalls (trace__sys_chmod sample_env 7 420 empty_state) (7, EVENT_CHMOD) \<noteq> None"
    by (simp add: pending_trace__sys_chmod sample_env_def)
  have e1: "events (trace__sys_chmod sample_env 7 420 empty_state) = []"
    by (simp add: events_trace__sys_chmod empty_state_def)
  have e2: "events (kprobe__attach_recursive_mnt sample_env sample_kernel 7 4096 4352 12288
        (sys_mount 7 1 2 3 empty_state)) = []"
    using events_run_mount_hook [of sample_env sample_kernel 7 "Attach_recursive_mnt 4096 4352 12288"
        "sys_mount 7 1 2 3 empty_state"]
    by (simp add: events_sys_mount empty_state_def)
  show ?thesis
    using h1 h2 h3 e1 e2
      unhandled_error_emits_nothing [of sample_env "- 4" 7
        "trace__sys_chmod sample_env 7 420 empty_state"]
      unhandled_error_emits_nothing [of sample_env "- 16" 7
        "kprobe__attach_recursive_mnt sample_env sample_kernel 7 4096 4352 12288
           (sys_mount 7 1 2 3 empty_state)" _ sample_kernel]
    by simp
qed

text \<open>
  C9. For a mount occurrence at a successful exit, if the mount id and the device of the
  source mount are both zero, \<^verbatim>\<open>do_sys_mount_ret\<close> returns the state unchanged and both exit
  handlers emit no Event. They are both zero for the source mount handle of an entry that
  no intermediate hook has populated.
\<close>
theorem zero_source_mount_suppresses_event:
  assumes "get_mount_mount_id k (src_mnt (mount c)) = 0"
    and "get_mount_dev k (src_mnt (mount c)) = 0"
  shows "do_sys_mount_ret e k t c 0 s = s \<and>
    (syscalls s (t, EVENT_MOUNT) = Some c \<longrightarrow>
       events (handle_sys_mount_exit e k t 0 s) = events s \<and>
       events (sys_mount_ret e k t 0 s) = events s) \<and>
    get_mount_mount_id k (src_mnt zero_mount) = 0 \<and> get_mount_dev k (src_mnt zero_mount) = 0"
  using assms
  by (simp add: do_sys_mount_ret_def mount_event_def Let_def events_handle_sys_mount_exit
      events_sys_mount_ret zero_mount_def null_mount_reads split: prod.splits)

theorem zero_source_mount_suppresses_event_witness:
  "get_mount_mount_id sample_kernel (src_mnt (mount unreadable_source_entry)) = 0 \<and>
   get_mount_dev sample_kernel (src_mnt (mount unreadable_source_entry)) = 0 \<and>
   syscalls (kprobe__attach_recursive_mnt sample_env sample_kernel 7 999 4352 12288
     (sys_mount 7 1 2 3 empty_state)) (7, EVENT_MOUNT) = Some unreadable_source_entry \<and>
   events (handle_sys_mount_exit sample_env sample_kernel 7 0
     (kprobe__attach_recursive_mnt sample_env sample_kernel 7 999 4352 12288
        (sys_mount 7 1 2 3 empty_state))) = []"
proof -
  have h1: "get_mount_mount_id sample_kernel (src_mnt (mount unreadable_source_entry)) = 0"
    and h2: "get_mount_dev sample_kernel (src_mnt (mount unreadable_source_entry)) = 0"
    by (simp_all add: unreadable_source_entry_def get_mount_mount_id_def get_mount_dev_def
        probe_read_def sample_kernel_def)
  have h3: "syscalls (kprobe__attach_recursive_mnt sample_env sample_kernel 7 999 4352 12288
     (sys_mount 7 1 2 3 empty_state)) (7, EVENT_MOUNT) = Some unreadable_source_entry"
    by (simp add: kprobe__attach_recursive_mnt_def peek_syscall_def pending_sys_mount
        mount_hook_body_def resolve_dentry_st_def Let_def unreadable_source_entry_def
        zero_mount_def get_mount_vfsmount_def get_vfsmount_dentry_def get_dentry_ino_def
        get_dentry_sb_def get_super_block_fs_def read_fs_name_def get_mount_mount_id_def
        probe_read_def sample_kernel_def zero_path_key_def)
  have h4: "events (kprobe__attach_recursive_mnt sample_env sample_kernel 7 999 4352 12288
     (sys_mount 7 1 2 3 empty_state)) = []"
    using events_run_mount_hook [of sample_env sample_kernel 7 "Attach_recursive_mnt 999 4352 12288"
        "sys_mount 7 1 2 3 empty_state"]
    by (simp add: events_sys_mount empty_state_def)
  show ?thesis
    using h3 h4
      zero_source_mount_suppresses_event [OF h1 h2, of sample_env 7
        "kprobe__attach_recursive_mnt sample_env sample_kernel 7 999 4352 12288
           (sys_mount 7 1 2 3 empty_state)"]
    by (simp add: h1 h2)
qed

text \<open>
  C10. For every admitted mode-change occurrence that reaches a handled exit, and for
  every value of the mode argument, the mode field of the one emitted Event is the
  entry-time mode bitwise-ANDed with \<^verbatim>\<open>S_IALLUGO\<close>: no bit outside the mask is set in it.
\<close>
theorem emitted_mode_is_masked:
  assumes "\<not> is_discarded_by_process e (pol_mode (fetch_policy e EVENT_CHMOD)) EVENT_CHMOD t"
    and "\<not> IS_UNHANDLED_ERROR e (ucast ret)"
  shows "\<exists>ev. events (handle_sys_chmod_exit e t ret (trace__sys_chmod e t mode s)) =
            events s @ [(EVENT_CHMOD, Chmod_event ev)] \<and>
          events (trace__sys_chmod_ret e t ret (trace__sys_chmod e t mode s)) =
            events s @ [(EVENT_CHMOD, Chmod_event ev)] \<and>
          ce_mode ev = ucast mode AND S_IALLUGO \<and>
          ce_mode ev AND NOT S_IALLUGO = 0 \<and>
          ce_mode ev \<le> 4095"
proof -
  let ?c = "\<lparr>sc_type = EVENT_CHMOD, sc_policy = fetch_policy e EVENT_CHMOD,
           setattr = zero_setattr\<lparr>sa_mode := ucast mode AND S_IALLUGO\<rparr>, mount = zero_mount\<rparr>"
  let ?ev = "chmod_event e t ?c (ucast ret)"
  have m: "ce_mode ?ev = ucast mode AND S_IALLUGO"
    by (simp add: chmod_event_fields)
  have "events (handle_sys_chmod_exit e t ret (trace__sys_chmod e t mode s)) =
            events s @ [(EVENT_CHMOD, Chmod_event ?ev)]"
    "events (trace__sys_chmod_ret e t ret (trace__sys_chmod e t mode s)) =
            events s @ [(EVENT_CHMOD, Chmod_event ?ev)]"
    using assms
    by (simp_all add: events_handle_sys_chmod_exit events_trace__sys_chmod_ret
        pending_trace__sys_chmod events_trace__sys_chmod)
  moreover have "ce_mode ?ev AND NOT S_IALLUGO = 0" "ce_mode ?ev \<le> 4095"
    unfolding m by (rule and_S_IALLUGO_outside, rule and_S_IALLUGO_le)
  ultimately show ?thesis
    using m by blast
qed

theorem emitted_mode_is_masked_witness:
  "\<not> is_discarded_by_process sample_env (pol_mode (fetch_policy sample_env EVENT_CHMOD))
       EVENT_CHMOD 7 \<and>
   \<not> IS_UNHANDLED_ERROR sample_env (ucast (0 :: u64)) \<and>
   (\<exists>ev. events (handle_sys_chmod_exit sample_env 7 0
            (trace__sys_chmod sample_env 7 33188 empty_state)) = [(EVENT_CHMOD, Chmod_event ev)] \<and>
         ce_mode ev = 420)"
proof -
  have h1: "\<not> is_discarded_by_process sample_env (pol_mode (fetch_policy sample_env EVENT_CHMOD))
       EVENT_CHMOD 7"
    and h2: "\<not> IS_UNHANDLED_ERROR sample_env (ucast (0 :: u64))"
    and h3: "events empty_state = []"
    by (simp_all add: sample_env_def empty_state_def)
  have h4: "ucast (33188 :: u16) AND S_IALLUGO = (420 :: u32)"
    by (simp add: S_IALLUGO_def)
  show ?thesis
    using h1 h2 emitted_mode_is_masked [OF h1 h2, of 33188 empty_state]
    by (auto simp add: h3 S_IALLUGO_def)
qed

text \<open>
  C8. \<^verbatim>\<open>resolve_dentry\<close> is a total function: on every handle and every ancestry, cyclic
  ones included, it returns a walk of at most the configured maximum number of steps; on
  a handle that is already a root it returns the empty sequence of fragments.
\<close>
theorem resolve_dentry_bounded:
  "length (resolve_dentry e k d key dt) \<le> max_depth e \<and>
   (is_root_dentry k d \<longrightarrow> resolve_dentry e k d key dt = [])"
proof -
  have "dentry_walk k n d key = []" if "is_root_dentry k d" for n
    using that by (cases n) simp_all
  then show ?thesis
    by (simp add: resolve_dentry_def length_dentry_walk)
qed

theorem resolve_dentry_bounded_witness:
  "length (resolve_dentry sample_env cyclic_kernel 16 \<lparr>ino = 5, mount_id = 1\<rparr> 0) = 3 \<and>
   max_depth sample_env = 3 \<and>
   is_root_dentry sample_kernel 8192 \<and>
   resolve_dentry sample_env sample_kernel 8192 \<lparr>ino = 2, mount_id = 42\<rparr> 0 = []"
proof -
  have h1: "is_root_dentry sample_kernel 8192"
    by (simp add: is_root_dentry_def get_dentry_parent_def probe_read_def sample_kernel_def)
  have h2: "length (resolve_dentry sample_env cyclic_kernel 16 \<lparr>ino = 5, mount_id = 1\<rparr> 0) = 3"
    by (simp add: resolve_dentry_def sample_env_def numeral_3_eq_3 is_root_dentry_def
        get_dentry_parent_def probe_read_def cyclic_kernel_def empty_kernel_def)
  show ?thesis
    using h1 h2
      resolve_dentry_bounded [of sample_env sample_kernel 8192 "\<lparr>ino = 2, mount_id = 42\<rparr>" 0]
      resolve_dentry_bounded [of sample_env cyclic_kernel 16 "\<lparr>ino = 5, mount_id = 1\<rparr>" 0]
    by (simp add: sample_env_def)
qed

text \<open>
  C7. With a policy that admits mode-change calls and return value 0 handled, a
  \<^verbatim>\<open>chmod\<close> with mode bits 0644 (decimal 420) whose target the intermediate hook has stored
  as the path key \<open>key\<close>, and which exits with return value 0, emits exactly one Event; its
  mode field is 0644, its file identity carries \<open>key\<close>, and its return value is 0.
\<close>
theorem chmod_0644_scenario:
  assumes "\<not> is_discarded_by_process e (pol_mode (fetch_policy e EVENT_CHMOD)) EVENT_CHMOD t"
    and "\<not> IS_UNHANDLED_ERROR e 0"
  shows "\<exists>ev. events (handle_sys_chmod_exit e t 0
                 (setattr_hook t dentry key (sys_chmod e t filename 420 s))) =
            events s @ [(EVENT_CHMOD, Chmod_event ev)] \<and>
          events (trace__sys_chmod_ret e t 0
                 (setattr_hook t dentry key (sys_chmod e t filename 420 s))) =
            events s @ [(EVENT_CHMOD, Chmod_event ev)] \<and>
          ce_mode ev = 420 \<and> path_key (ce_file ev) = key \<and> ce_retval ev = 0"
proof -
  let ?c = "\<lparr>sc_type = EVENT_CHMOD, sc_policy = fetch_policy e EVENT_CHMOD,
     setattr = zero_setattr\<lparr>sa_mode := 420, sa_dentry := dentry, sa_file := \<lparr>path_key = key\<rparr>\<rparr>,
     mount = zero_mount\<rparr>"
  have p: "syscalls (setattr_hook t dentry key (sys_chmod e t filename 420 s)) (t, EVENT_CHMOD) =
      Some ?c"
    by (simp add: setattr_hook_def peek_syscall_def sys_chmod_def
        pending_trace__sys_chmod [OF assms(1)] S_IALLUGO_def zero_setattr_def)
  have q: "events (setattr_hook t dentry key (sys_chmod e t filename 420 s)) = events s"
    by (simp add: setattr_hook_def peek_syscall_def sys_chmod_def
        pending_trace__sys_chmod [OF assms(1)] events_trace__sys_chmod)
  let ?ev = "chmod_event e t ?c 0"
  have "events (handle_sys_chmod_exit e t 0
                 (setattr_hook t dentry key (sys_chmod e t filename 420 s))) =
            events s @ [(EVENT_CHMOD, Chmod_event ?ev)]"
    "events (trace__sys_chmod_ret e t 0
                 (setattr_hook t dentry key (sys_chmod e t filename 420 s))) =
            events s @ [(EVENT_CHMOD, Chmod_event ?ev)]"
    using assms(2) by (simp_all add: events_handle_sys_chmod_exit events_trace__sys_chmod_ret p q)
  moreover have "ce_mode ?ev = 420 \<and> path_key (ce_file ?ev) = key \<and> ce_retval ?ev = 0"
    by (simp add: chmod_event_fields)
  ultimately show ?thesis by blast
qed

theorem chmod_0644_scenario_witness:
  "\<not> is_discarded_by_process sample_env (pol_mode (fetch_policy sample_env EVENT_CHMOD))
       EVENT_CHMOD 7 \<and>
   \<not> IS_UNHANDLED_ERROR sample_env 0 \<and>
   (\<exists>ev. events (handle_sys_chmod_exit sample_env 7 0
            (setattr_hook 7 8448 \<lparr>ino = 300, mount_id = 1\<rparr>
               (sys_chmod sample_env 7 24576 420 empty_state))) =
          [(EVENT_CHMOD, Chmod_event ev)] \<and>
         ce_mode ev = 420 \<and> path_key (ce_file ev) = \<lparr>ino = 300, mount_id = 1\<rparr>)"
proof -
  have h1: "\<not> is_discarded_by_process sample_env (pol_mode (fetch_policy sample_env EVENT_CHMOD))
       EVENT_CHMOD 7"
    and h2: "\<not> IS_UNHANDLED_ERROR sample_env 0"
    and h3: "events empty_state = []"
    by (simp_all add: sample_env_def empty_state_def)
  show ?thesis
    using h1 h2 chmod_0644_scenario [OF h1 h2, of 8448 "\<lparr>ino = 300, mount_id = 1\<rparr>" 24576 empty_state]
    by (auto simp add: h3)
qed

text \<open>
  C3. The cache holds at most one entry per key (thread, type). An insert through
  \<^verbatim>\<open>cache_syscall\<close> on a key that already holds an entry replaces it: the slot then holds
  exactly the new entry, every other key is untouched, and the next pop returns the new
  entry. A pop empties the slot, so a second pop of the key is absent. For both families:
  when a second entry overwrites a pending one, the exit that follows consumes the new
  entry (the Event of the mode-change family carries the second mode), and the exit of
  the overwritten occurrence, arriving after it, finds nothing and changes nothing.
\<close>
theorem single_slot_last_write_wins:
  "syscalls (cache_syscall t c (cache_syscall t c1 s)) (t, sc_type c) = Some c \<and>
   card {x. syscalls (cache_syscall t c s) (t, sc_type c) = Some x} = 1 \<and>
   card {x. syscalls s (t, ty) = Some x} \<le> 1 \<and>
   (key \<noteq> (t, sc_type c) \<longrightarrow> syscalls (cache_syscall t c s) key = syscalls s key) \<and>
   pop_syscall t (sc_type c) (cache_syscall t c (cache_syscall t c1 s)) =
     (Some c, (cache_syscall t c (cache_syscall t c1 s))
                \<lparr>syscalls := (syscalls (cache_syscall t c (cache_syscall t c1 s)))((t, sc_type c) := None)\<rparr>) \<and>
   fst (pop_syscall t ty (snd (pop_syscall t ty s))) = None \<and>
   (\<not> is_discarded_by_process e (pol_mode (fetch_policy e EVENT_CHMOD)) EVENT_CHMOD t \<longrightarrow>
      (let s2 = trace__sys_chmod e t mode2 (trace__sys_chmod e t mode1 s);
           s3 = handle_sys_chmod_exit e t ret s2
       in (\<not> IS_UNHANDLED_ERROR e (ucast ret) \<longrightarrow>
             (\<exists>ev. events s3 = events s @ [(EVENT_CHMOD, Chmod_event ev)] \<and>
                   ce_mode ev = ucast mode2 AND S_IALLUGO)) \<and>
          handle_sys_chmod_exit e t ret' s3 = s3 \<and> trace__sys_chmod_ret e t ret' s3 = s3)) \<and>
   (let s2 = sys_mount t a2 b2 c2 (sys_mount t a1 b1 c1' s);
        s3 = handle_sys_mount_exit e k t ret s2
    in handle_sys_mount_exit e k t ret' s3 = s3 \<and> sys_mount_ret e k t ret' s3 = s3)"
proof -
  have p1: "syscalls (cache_syscall t c (cache_syscall t c1 s)) (t, sc_type c) = Some c"
    by (simp add: cache_syscall_def)
  have "{x. syscalls (cache_syscall t c s) (t, sc_type c) = Some x} = {c}"
    by (auto simp add: cache_syscall_def)
  then have p2: "card {x. syscalls (cache_syscall t c s) (t, sc_type c) = Some x} = 1"
    by simp
  have p3: "card {x. syscalls s (t, ty) = Some x} \<le> 1"
  proof (cases "syscalls s (t, ty)")
    case None
    then show ?thesis by simp
  next
    case (Some y)
    then have "{x. syscalls s (t, ty) = Some x} = {y}" by auto
    then show ?thesis by simp
  qed
  have p4: "key \<noteq> (t, sc_type c) \<longrightarrow> syscalls (cache_syscall t c s) key = syscalls s key"
    by (simp add: cache_syscall_def)
  have p5: "pop_syscall t (sc_type c) (cache_syscall t c (cache_syscall t c1 s)) =
     (Some c, (cache_syscall t c (cache_syscall t c1 s))
                \<lparr>syscalls := (syscalls (cache_syscall t c (cache_syscall t c1 s)))((t, sc_type c) := None)\<rparr>)"
    by (rule pop_syscall_Some [OF p1])
  have p6: "fst (pop_syscall t ty (snd (pop_syscall t ty s))) = None"
    by (simp add: pop_syscall_def split: option.splits)
  have p7: "\<not> is_discarded_by_process e (pol_mode (fetch_policy e EVENT_CHMOD)) EVENT_CHMOD t \<longrightarrow>
      (let s2 = trace__sys_chmod e t mode2 (trace__sys_chmod e t mode1 s);
           s3 = handle_sys_chmod_exit e t ret s2
       in (\<not> IS_UNHANDLED_ERROR e (ucast ret) \<longrightarrow>
             (\<exists>ev. events s3 = events s @ [(EVENT_CHMOD, Chmod_event ev)] \<and>
                   ce_mode ev = ucast mode2 AND S_IALLUGO)) \<and>
          handle_sys_chmod_exit e t ret' s3 = s3 \<and> trace__sys_chmod_ret e t ret' s3 = s3)"
    using exit_noop_chmod [OF consumed_by_chmod_exit]
    by (simp add: Let_def events_handle_sys_chmod_exit pending_trace__sys_chmod
        events_trace__sys_chmod chmod_event_def zero_setattr_def split: prod.splits)
  have p8: "let s2 = sys_mount t a2 b2 c2 (sys_mount t a1 b1 c1' s);
        s3 = handle_sys_mount_exit e k t ret s2
    in handle_sys_mount_exit e k t ret' s3 = s3 \<and> sys_mount_ret e k t ret' s3 = s3"
    using exit_noop_mount [OF consumed_by_mount_exit] by (simp add: Let_def)
  from p1 p2 p3 p4 p5 p6 p7 p8 show ?thesis by blast
qed

theorem single_slot_last_write_wins_witness:
  "((8 :: u64), EVENT_MOUNT) \<noteq> (7, sc_type unreadable_source_entry) \<and>
   syscalls (cache_syscall 7 unreadable_source_entry
     (cache_syscall 7 \<lparr>sc_type = EVENT_MOUNT, sc_policy = zero_policy, setattr = zero_setattr,
        mount = zero_mount\<rparr> empty_state)) (7, EVENT_MOUNT) = Some unreadable_source_entry \<and>
   syscalls (cache_syscall 7 unreadable_source_entry empty_state) (8, EVENT_MOUNT) = None \<and>
   \<not> is_discarded_by_process sample_env (pol_mode (fetch_policy sample_env EVENT_CHMOD))
       EVENT_CHMOD 7 \<and>
   \<not> IS_UNHANDLED_ERROR sample_env (ucast (0 :: u64)) \<and>
   (\<exists>ev. events (handle_sys_chmod_exit sample_env 7 0
            (trace__sys_chmod sample_env 7 384 (trace__sys_chmod sample_env 7 420 empty_state))) =
          [(EVENT_CHMOD, Chmod_event ev)] \<and> ce_mode ev = 384) \<and>
   handle_sys_chmod_exit sample_env 7 0
     (handle_sys_chmod_exit sample_env 7 0
        (trace__sys_chmod sample_env 7 384 (trace__sys_chmod sample_env 7 420 empty_state))) =
   handle_sys_chmod_exit sample_env 7 0
     (trace__sys_chmod sample_env 7 384 (trace__sys_chmod sample_env 7 420 empty_state)) \<and>
   handle_sys_mount_exit sample_env sample_kernel 7 0
     (handle_sys_mount_exit sample_env sample_kernel 7 0
        (sys_mount 7 4 5 6 (sys_mount 7 1 2 3 empty_state))) =
   handle_sys_mount_exit sample_env sample_kernel 7 0
     (sys_mount 7 4 5 6 (sys_mount 7 1 2 3 empty_state))"
proof -
  have t: "sc_type unreadable_source_entry = EVENT_MOUNT"
    by (simp add: unreadable_source_entry_def)
  have h1: "((8 :: u64), EVENT_MOUNT) \<noteq> (7, sc_type unreadable_source_entry)"
    by simp
  have h2: "\<not> is_discarded_by_process sample_env (pol_mode (fetch_policy sample_env EVENT_CHMOD))
       EVENT_CHMOD 7"
    and h3: "\<not> IS_UNHANDLED_ERROR sample_env (ucast (0 :: u64))"
    and h4: "events empty_state = []"
    and h6: "syscalls empty_state (8, EVENT_MOUNT) = None"
    by (simp_all add: sample_env_def empty_state_def)
  have h5: "ucast (384 :: u16) AND S_IALLUGO = (384 :: u32)"
    by (simp add: S_IALLUGO_def)
  show ?thesis
    using h1 h2 h3 h4 h5 h6 t
      single_slot_last_write_wins [where t = 7 and s = empty_state and e = sample_env
        and ?mode1.0 = 420 and ?mode2.0 = 384 and ret = 0 and ret' = 0 and k = sample_kernel
        and ?a1.0 = 1 and ?b1.0 = 2 and c1' = 3 and ?a2.0 = 4 and ?b2.0 = 5 and ?c2.0 = 6
        and key = "(8, EVENT_MOUNT)" and ty = EVENT_CHMOD and c = unreadable_source_entry
        and ?c1.0 = "\<lparr>sc_type = EVENT_MOUNT, sc_policy = zero_policy, setattr = zero_setattr,
        mount = zero_mount\<rparr>"]
    by (simp add: Let_def)
qed

text \<open>
  C2 as stated fails for the mount family: under a policy that discards every call of the
  process, the mount entry handler still creates a pending entry in an empty cache.
\<close>
theorem mount_entry_ignores_policy_counterexample:
  "is_discarded_by_process discard_env (pol_mode (fetch_policy discard_env EVENT_MOUNT)) EVENT_MOUNT 7 \<and>
   syscalls empty_state (7, EVENT_MOUNT) = None \<and>
   syscalls (sys_mount 7 1 2 3 empty_state) (7, EVENT_MOUNT) \<noteq> None"
  by (simp add: discard_env_def sample_env_def empty_state_def pending_sys_mount)

text \<open>
  C2, as amended. The entry handler of the mode-change family asks the policy filter
  before it inserts: a discarded call leaves the whole state, and so the cache, as it was
  (through each of the three entry probes); an admitted call stores the entry with the
  policy it fetched; and the cache changes only if the filter admitted the call. The
  entry handler of the mount family evaluates no filter: it stores a pending entry for
  every call.
\<close>
theorem filter_before_insert:
  "(is_discarded_by_process e (pol_mode (fetch_policy e EVENT_CHMOD)) EVENT_CHMOD t \<longrightarrow>
      trace__sys_chmod e t mode s = s \<and> sys_chmod e t filename mode s = s \<and>
      sys_fchmod e t fd mode s = s \<and> sys_fchmodat e t fd filename mode s = s) \<and>
   (\<not> is_discarded_by_process e (pol_mode (fetch_policy e EVENT_CHMOD)) EVENT_CHMOD t \<longrightarrow>
      syscalls (trace__sys_chmod e t mode s) (t, EVENT_CHMOD) =
        Some \<lparr>sc_type = EVENT_CHMOD, sc_policy = fetch_policy e EVENT_CHMOD,
              setattr = zero_setattr\<lparr>sa_mode := ucast mode AND S_IALLUGO\<rparr>, mount = zero_mount\<rparr>) \<and>
   (syscalls (trace__sys_chmod e t mode s) \<noteq> syscalls s \<longrightarrow>
      \<not> is_discarded_by_process e (pol_mode (fetch_policy e EVENT_CHMOD)) EVENT_CHMOD t) \<and>
   syscalls (sys_mount t source target fs s) (t, EVENT_MOUNT) =
     Some \<lparr>sc_type = EVENT_MOUNT, sc_policy = zero_policy, setattr = zero_setattr, mount = zero_mount\<rparr>"
proof -
  have d: "trace__sys_chmod e t mode s = s"
    if "is_discarded_by_process e (pol_mode (fetch_policy e EVENT_CHMOD)) EVENT_CHMOD t"
    using that by (rule discarded_trace__sys_chmod)
  show ?thesis
    using d
    by (auto simp add: sys_chmod_def sys_fchmod_def sys_fchmodat_def pending_trace__sys_chmod
        pending_sys_mount)
qed

theorem filter_before_insert_witness:
  "is_discarded_by_process discard_env (pol_mode (fetch_policy discard_env EVENT_CHMOD)) EVENT_CHMOD 7 \<and>
   trace__sys_chmod discard_env 7 420 empty_state = empty_state \<and>
   sys_fchmodat discard_env 7 3 0 420 empty_state = empty_state \<and>
   \<not> is_discarded_by_process sample_env (pol_mode (fetch_policy sample_env EVENT_CHMOD)) EVENT_CHMOD 7 \<and>
   syscalls (trace__sys_chmod sample_env 7 420 empty_state) (7, EVENT_CHMOD) \<noteq> None \<and>
   syscalls (trace__sys_chmod sample_env 7 420 empty_state) \<noteq> syscalls empty_state \<and>
   syscalls (sys_mount 7 1 2 3 empty_state) (7, EVENT_MOUNT) \<noteq> None"
proof -
  have h1: "is_discarded_by_process discard_env (pol_mode (fetch_policy discard_env EVENT_CHMOD)) EVENT_CHMOD 7"
    and h2: "\<not> is_discarded_by_process sample_env (pol_mode (fetch_policy sample_env EVENT_CHMOD)) EVENT_CHMOD 7"
    by (simp_all add: sample_env_def discard_env_def)
  have h3: "syscalls (trace__sys_chmod sample_env 7 420 empty_state) \<noteq> syscalls empty_state"
  proof
    assume "syscalls (trace__sys_chmod sample_env 7 420 empty_state) = syscalls empty_state"
    then have "syscalls (trace__sys_chmod sample_env 7 420 empty_state) (7, EVENT_CHMOD) =
               syscalls empty_state (7, EVENT_CHMOD)" by simp
    then show False by (simp add: pending_trace__sys_chmod [OF h2] empty_state_def)
  qed
  show ?thesis
    using h1 h2 h3
      filter_before_insert [of discard_env 7 420 empty_state 0 3 1 2 3]
      filter_before_insert [of sample_env 7 420 empty_state 0 3 1 2 3]
    by simp
qed

text \<open>
  C6 as stated fails: a mount on thread 7 whose hooks never fire reaches the exit
  tracepoint with return value 0, and no Event is emitted.
\<close>
theorem mount_without_hooks_counterexample:
  "syscalls (sys_mount 7 1 2 3 empty_state) (7, EVENT_MOUNT) \<noteq> None \<and>
   events (handle_sys_mount_exit sample_env sample_kernel 7 0 (sys_mount 7 1 2 3 empty_state)) = []"
  by (simp add: events_handle_sys_mount_exit pending_sys_mount events_sys_mount zero_mount_def
      null_mount_reads empty_state_def)

text \<open>
  C6, as amended. After the entry of a mount whose intermediate hooks never fire, the
  pending entry has its filesystem-type and root fields, and its source mount handle, at
  their zero defaults. At a successful exit (return value 0) the mount id and device of
  that absent source mount read zero, and the exit handler, on either exit path, returns
  without emitting an Event and without walking a path.
\<close>
theorem mount_without_hooks_is_suppressed:
  "syscalls (sys_mount t source target fs s) (t, EVENT_MOUNT) =
     Some \<lparr>sc_type = EVENT_MOUNT, sc_policy = zero_policy, setattr = zero_setattr,
           mount = zero_mount\<rparr> \<and>
   fstype zero_mount = 0 \<and> root_key zero_mount = \<lparr>ino = 0, mount_id = 0\<rparr> \<and>
   src_mnt zero_mount = 0 \<and>
   events (handle_sys_mount_exit e k t 0 (sys_mount t source target fs s)) = events s \<and>
   events (sys_mount_ret e k t 0 (sys_mount t source target fs s)) = events s \<and>
   pathnames (handle_sys_mount_exit e k t 0 (sys_mount t source target fs s)) = pathnames s \<and>
   pathnames (sys_mount_ret e k t 0 (sys_mount t source target fs s)) = pathnames s"
proof -
  have z: "src_mnt zero_mount = 0"
    by (simp add: zero_mount_def)
  have g: "do_sys_mount_ret e k t
      \<lparr>sc_type = EVENT_MOUNT, sc_policy = zero_policy, setattr = zero_setattr, mount = zero_mount\<rparr>
      r x = x" for r x
    by (simp add: do_sys_mount_ret_def mount_event_def Let_def z null_mount_reads split: prod.splits)
  have x: "handle_sys_mount_exit e k t 0 (sys_mount t source target fs s) =
      (sys_mount t source target fs s)
        \<lparr>syscalls := (syscalls (sys_mount t source target fs s))((t, EVENT_MOUNT) := None)\<rparr>"
    "sys_mount_ret e k t 0 (sys_mount t source target fs s) =
      (sys_mount t source target fs s)
        \<lparr>syscalls := (syscalls (sys_mount t source target fs s))((t, EVENT_MOUNT) := None)\<rparr>"
    by (simp_all add: handle_sys_mount_exit_def sys_mount_ret_def
        pop_syscall_Some [OF pending_sys_mount] g)
  have p: "pathnames (handle_sys_mount_exit e k t 0 (sys_mount t source target fs s)) = pathnames s"
    "pathnames (sys_mount_ret e k t 0 (sys_mount t source target fs s)) = pathnames s"
    unfolding x by (simp_all add: sys_mount_def cache_syscall_def)
  show ?thesis
    using p
    by (simp add: pending_sys_mount events_handle_sys_mount_exit events_sys_mount_ret
        events_sys_mount z null_mount_reads zero_mount_def zero_path_key_def)
qed

theorem mount_without_hooks_is_suppressed_witness:
  "syscalls (sys_mount 7 1 2 3 empty_state) (7, EVENT_MOUNT) =
     Some \<lparr>sc_type = EVENT_MOUNT, sc_policy = zero_policy, setattr = zero_setattr,
           mount = zero_mount\<rparr> \<and>
   events (sys_mount_ret sample_env sample_kernel 7 0 (sys_mount 7 1 2 3 empty_state)) = [] \<and>
   pathnames (sys_mount_ret sample_env sample_kernel 7 0 (sys_mount 7 1 2 3 empty_state)) = []"
  using mount_without_hooks_is_suppressed [of 7 1 2 3 empty_state sample_env sample_kernel]
  by (simp add: empty_state_def)

text \<open>
  C1 as stated fails for the mount family: a mount on thread 9 is admitted at entry and
  reaches exit with return value 0, and no Event is emitted.
\<close>
theorem mount_exit_without_source_counterexample:
  "syscalls (sys_mount 9 1 2 3 empty_state) (9, EVENT_MOUNT) \<noteq> None \<and>
   events (sys_mount_ret sample_env sample_kernel 9 0 (sys_mount 9 1 2 3 empty_state)) = []"
  by (simp add: events_sys_mount_ret pending_sys_mount events_sys_mount zero_mount_def
      null_mount_reads empty_state_def)

text \<open>
  C1, as amended. An admitted mode-change occurrence that reaches a handled exit emits
  exactly one Event: directly after its entry, and from any later state in which its entry
  is still pending. A mount occurrence (always admitted) that reaches exit with return
  value 0, after any sequence of intermediate hooks, emits exactly one Event unless the
  mount id and the device of the source mount both read zero, and none in that case. A
  mode-change occurrence discarded at entry emits none (the slot of the thread being empty
  before it), and an occurrence whose exit is never observed emits none: the entry
  handlers and the intermediate hooks leave the emitted records as they were.
\<close>
theorem one_event_per_handled_exit:
  "(\<not> is_discarded_by_process e (pol_mode (fetch_policy e EVENT_CHMOD)) EVENT_CHMOD t \<and>
    \<not> IS_UNHANDLED_ERROR e (ucast ret) \<longrightarrow>
      (\<exists>c. syscalls (trace__sys_chmod e t mode s) (t, EVENT_CHMOD) = Some c \<and>
           events (handle_sys_chmod_exit e t ret (trace__sys_chmod e t mode s)) =
             events s @ [(EVENT_CHMOD, Chmod_event (chmod_event e t c (ucast ret)))] \<and>
           events (trace__sys_chmod_ret e t ret (trace__sys_chmod e t mode s)) =
             events s @ [(EVENT_CHMOD, Chmod_event (chmod_event e t c (ucast ret)))])) \<and>
   (syscalls s (t, EVENT_CHMOD) = Some c' \<and> \<not> IS_UNHANDLED_ERROR e (ucast ret) \<longrightarrow>
      length (events (handle_sys_chmod_exit e t ret s)) = length (events s) + 1 \<and>
      length (events (trace__sys_chmod_ret e t ret s)) = length (events s) + 1) \<and>
   (is_discarded_by_process e (pol_mode (fetch_policy e EVENT_CHMOD)) EVENT_CHMOD t \<and>
    syscalls s (t, EVENT_CHMOD) = None \<longrightarrow>
      events (handle_sys_chmod_exit e t ret (trace__sys_chmod e t mode s)) = events s \<and>
      events (trace__sys_chmod_ret e t ret (trace__sys_chmod e t mode s)) = events s) \<and>
   events (trace__sys_chmod e t mode s) = events s \<and>
   events (run_mount_hooks e k t hs (sys_mount t a b fs s)) = events s \<and>
   (\<exists>c. syscalls (run_mount_hooks e k t hs (sys_mount t a b fs s)) (t, EVENT_MOUNT) = Some c \<and>
        events (handle_sys_mount_exit e k t 0 (run_mount_hooks e k t hs (sys_mount t a b fs s))) =
          events s @
            (if get_mount_mount_id k (src_mnt (mount c)) = 0 \<and> get_mount_dev k (src_mnt (mount c)) = 0
             then [] else [(EVENT_MOUNT, Mount_event (mount_event e k t c 0))]) \<and>
        events (sys_mount_ret e k t 0 (run_mount_hooks e k t hs (sys_mount t a b fs s))) =
          events s @
            (if get_mount_mount_id k (src_mnt (mount c)) = 0 \<and> get_mount_dev k (src_mnt (mount c)) = 0
             then [] else [(EVENT_MOUNT, Mount_event (mount_event e k t c 0))]))"
proof -
  have p1: "\<not> is_discarded_by_process e (pol_mode (fetch_policy e EVENT_CHMOD)) EVENT_CHMOD t \<and>
    \<not> IS_UNHANDLED_ERROR e (ucast ret) \<longrightarrow>
      (\<exists>c. syscalls (trace__sys_chmod e t mode s) (t, EVENT_CHMOD) = Some c \<and>
           events (handle_sys_chmod_exit e t ret (trace__sys_chmod e t mode s)) =
             events s @ [(EVENT_CHMOD, Chmod_event (chmod_event e t c (ucast ret)))] \<and>
           events (trace__sys_chmod_ret e t ret (trace__sys_chmod e t mode s)) =
             events s @ [(EVENT_CHMOD, Chmod_event (chmod_event e t c (ucast ret)))])"
    by (simp add: events_handle_sys_chmod_exit events_trace__sys_chmod_ret
        pending_trace__sys_chmod events_trace__sys_chmod)
  have p2: "syscalls s (t, EVENT_CHMOD) = Some c' \<and> \<not> IS_UNHANDLED_ERROR e (ucast ret) \<longrightarrow>
      length (events (handle_sys_chmod_exit e t ret s)) = length (events s) + 1 \<and>
      length (events (trace__sys_chmod_ret e t ret s)) = length (events s) + 1"
    by (simp add: events_handle_sys_chmod_exit events_trace__sys_chmod_ret)
  have p3: "is_discarded_by_process e (pol_mode (fetch_policy e EVENT_CHMOD)) EVENT_CHMOD t \<and>
    syscalls s (t, EVENT_CHMOD) = None \<longrightarrow>
      events (handle_sys_chmod_exit e t ret (trace__sys_chmod e t mode s)) = events s \<and>
      events (trace__sys_chmod_ret e t ret (trace__sys_chmod e t mode s)) = events s"
    by (simp add: events_handle_sys_chmod_exit events_trace__sys_chmod_ret
        discarded_trace__sys_chmod)
  have p4: "events (trace__sys_chmod e t mode s) = events s"
    by (rule events_trace__sys_chmod)
  have p5: "events (run_mount_hooks e k t hs (sys_mount t a b fs s)) = events s"
    by (simp add: events_run_mount_hooks events_sys_mount)
  obtain c where c: "syscalls (run_mount_hooks e k t hs (sys_mount t a b fs s)) (t, EVENT_MOUNT) = Some c"
    using pending_run_mount_hooks [OF pending_sys_mount] by blast
  have p6: "\<exists>c. syscalls (run_mount_hooks e k t hs (sys_mount t a b fs s)) (t, EVENT_MOUNT) = Some c \<and>
        events (handle_sys_mount_exit e k t 0 (run_mount_hooks e k t hs (sys_mount t a b fs s))) =
          events s @
            (if get_mount_mount_id k (src_mnt (mount c)) = 0 \<and> get_mount_dev k (src_mnt (mount c)) = 0
             then [] else [(EVENT_MOUNT, Mount_event (mount_event e k t c 0))]) \<and>
        events (sys_mount_ret e k t 0 (run_mount_hooks e k t hs (sys_mount t a b fs s))) =
          events s @
            (if get_mount_mount_id k (src_mnt (mount c)) = 0 \<and> get_mount_dev k (src_mnt (mount c)) = 0
             then [] else [(EVENT_MOUNT, Mount_event (mount_event e k t c 0))])"
    using c by (simp add: events_handle_sys_mount_exit events_sys_mount_ret p5)
  from p1 p2 p3 p4 p5 p6 show ?thesis by blast
qed

theorem one_event_per_handled_exit_witness:
  "\<not> is_discarded_by_process sample_env (pol_mode (fetch_policy sample_env EVENT_CHMOD))
       EVENT_CHMOD 7 \<and>
   \<not> IS_UNHANDLED_ERROR sample_env (ucast (0 :: u64)) \<and>
   length (events (handle_sys_chmod_exit sample_env 7 0
     (trace__sys_chmod sample_env 7 420 empty_state))) = 1 \<and>
   length (events (trace__sys_chmod_ret sample_env 7 0
     (trace__sys_chmod sample_env 7 420 empty_state))) = 1 \<and>
   syscalls (setattr_hook 7 8448 \<lparr>ino = 300, mount_id = 1\<rparr>
     (trace__sys_chmod sample_env 7 420 empty_state)) (7, EVENT_CHMOD) \<noteq> None \<and>
   length (events (handle_sys_chmod_exit sample_env 7 0
     (setattr_hook 7 8448 \<lparr>ino = 300, mount_id = 1\<rparr>
        (trace__sys_chmod sample_env 7 420 empty_state)))) = 1 \<and>
   is_discarded_by_process discard_env (pol_mode (fetch_policy discard_env EVENT_CHMOD))
     EVENT_CHMOD 7 \<and>
   syscalls empty_state (7, EVENT_CHMOD) = None \<and>
   events (handle_sys_chmod_exit discard_env 7 0
     (trace__sys_chmod discard_env 7 420 empty_state)) = [] \<and>
   events (trace__sys_chmod sample_env 7 420 empty_state) = [] \<and>
   length (events (handle_sys_mount_exit sample_env sample_kernel 7 0
     (run_mount_hooks sample_env sample_kernel 7 [Attach_recursive_mnt 4096 4352 12288]
        (sys_mount 7 1 2 3 empty_state)))) = 1"
proof -
  have h1: "\<not> is_discarded_by_process sample_env (pol_mode (fetch_policy sample_env EVENT_CHMOD))
       EVENT_CHMOD 7"
    and h2: "\<not> IS_UNHANDLED_ERROR sample_env (ucast (0 :: u64))"
    and h3: "is_discarded_by_process discard_env (pol_mode (fetch_policy discard_env EVENT_CHMOD))
       EVENT_CHMOD 7"
    and h4: "syscalls empty_state (7, EVENT_CHMOD) = None"
    and h5: "events empty_state = []"
    by (simp_all add: sample_env_def discard_env_def empty_state_def)
  define c' where "c' = \<lparr>sc_type = EVENT_CHMOD, sc_policy = fetch_policy sample_env EVENT_CHMOD,
     setattr = zero_setattr\<lparr>sa_mode := ucast (420 :: u16) AND S_IALLUGO,
       sa_dentry := 8448, sa_file := \<lparr>path_key = \<lparr>ino = 300, mount_id = 1\<rparr>\<rparr>\<rparr>,
     mount = zero_mount\<rparr>"
  have h6: "syscalls (setattr_hook 7 8448 \<lparr>ino = 300, mount_id = 1\<rparr>
     (trace__sys_chmod sample_env 7 420 empty_state)) (7, EVENT_CHMOD) = Some c'"
    by (simp add: setattr_hook_def peek_syscall_def pending_trace__sys_chmod [OF h1] c'_def)
  have h7: "events (setattr_hook 7 8448 \<lparr>ino = 300, mount_id = 1\<rparr>
     (trace__sys_chmod sample_env 7 420 empty_state)) = []"
    by (simp add: setattr_hook_def peek_syscall_def pending_trace__sys_chmod [OF h1]
        events_trace__sys_chmod h5)
  have m: "syscalls (run_mount_hooks sample_env sample_kernel 7
        [Attach_recursive_mnt 4096 4352 12288] (sys_mount 7 1 2 3 empty_state)) (7, EVENT_MOUNT) =
        Some c \<Longrightarrow>
      get_mount_mount_id sample_kernel (src_mnt (mount c)) = 42" for c
    by (auto simp add: kprobe__attach_recursive_mnt_def peek_syscall_def pending_sys_mount
        mount_hook_body_def resolve_dentry_st_def Let_def get_mount_mount_id_def probe_read_def
        sample_kernel_def)
  show ?thesis
    using h1 h2 h3 h4 h5 h6 h7 m
      one_event_per_handled_exit [of sample_env 7 0 420 empty_state c' sample_kernel
        "[Attach_recursive_mnt 4096 4352 12288]" 1 2 3]
      one_event_per_handled_exit [of sample_env 7 0 420
        "setattr_hook 7 8448 \<lparr>ino = 300, mount_id = 1\<rparr>
           (trace__sys_chmod sample_env 7 420 empty_state)" c' sample_kernel "[]" 1 2 3]
      one_event_per_handled_exit [of discard_env 7 0 420 empty_state c' sample_kernel
        "[]" 1 2 3]
    by auto
qed

end
